theory Spec2Isabelle
  imports Complex_Main
begin

section \<open>The built-in type \<open>double\<close>\<close>

text \<open>
  Every number of \<^verbatim>\<open>src/main.cpp\<close> is a C++ \<^verbatim>\<open>double\<close>. The model keeps the
  shape of an IEEE 754 value: a finite number, the negative zero, the two infinities and
  NaN. \<open>Fin 0\<close> is the positive zero and \<open>NegZero\<close> the negative one.

  Finite arithmetic is exact: a finite result is the real number the operation denotes,
  with no rounding, no overflow and no underflow. What is kept of IEEE 754 is everything
  the program can observe besides rounding: division by zero gives an infinity or NaN,
  \<open>0 * inf\<close> and \<open>inf - inf\<close> are NaN, every comparison with NaN is false, the
  two zeros compare equal, and the sign of a zero decides the sign of the infinity it
  divides into.
\<close>

datatype double = Fin real | NegZero | PInf | NInf | NaN

fun is_nan :: "double \<Rightarrow> bool" where
  "is_nan NaN = True"
| "is_nan _ = False"

fun is_inf :: "double \<Rightarrow> bool" where
  "is_inf PInf = True"
| "is_inf NInf = True"
| "is_inf _ = False"

fun is_fin :: "double \<Rightarrow> bool" where
  "is_fin (Fin r) = True"
| "is_fin NegZero = True"
| "is_fin _ = False"

text \<open>The real number a finite value denotes (both zeros denote 0).\<close>

fun val :: "double \<Rightarrow> real" where
  "val (Fin r) = r"
| "val _ = 0"

fun is_zero :: "double \<Rightarrow> bool" where
  "is_zero (Fin r) = (r = 0)"
| "is_zero NegZero = True"
| "is_zero _ = False"

text \<open>The sign bit: set on negative numbers, on the negative zero and on \<open>-inf\<close>.\<close>

fun signbit :: "double \<Rightarrow> bool" where
  "signbit (Fin r) = (r < 0)"
| "signbit NegZero = True"
| "signbit NInf = True"
| "signbit _ = False"

definition zero_of :: "bool \<Rightarrow> double" where
  "zero_of neg = (if neg then NegZero else Fin 0)"

definition inf_of :: "bool \<Rightarrow> double" where
  "inf_of neg = (if neg then NInf else PInf)"

text \<open>A finite result with the sign rule of multiplication and division for zeros.\<close>

definition fin_of :: "bool \<Rightarrow> real \<Rightarrow> double" where
  "fin_of neg r = (if r = 0 then zero_of neg else Fin r)"

fun dneg :: "double \<Rightarrow> double" where
  "dneg (Fin r) = (if r = 0 then NegZero else Fin (- r))"
| "dneg NegZero = Fin 0"
| "dneg PInf = NInf"
| "dneg NInf = PInf"
| "dneg NaN = NaN"

text \<open>
  Addition under round-to-nearest: a sum that is zero is \<open>+0\<close> unless both operands
  are \<open>-0\<close>; opposite infinities give NaN.
\<close>

fun dadd :: "double \<Rightarrow> double \<Rightarrow> double" where
  "dadd NaN _ = NaN"
| "dadd _ NaN = NaN"
| "dadd PInf NInf = NaN"
| "dadd NInf PInf = NaN"
| "dadd PInf _ = PInf"
| "dadd _ PInf = PInf"
| "dadd NInf _ = NInf"
| "dadd _ NInf = NInf"
| "dadd NegZero NegZero = NegZero"
| "dadd NegZero (Fin b) = Fin b"
| "dadd (Fin a) NegZero = Fin a"
| "dadd (Fin a) (Fin b) = Fin (a + b)"

definition dsub :: "double \<Rightarrow> double \<Rightarrow> double" where
  "dsub x y = dadd x (dneg y)"

definition dmul :: "double \<Rightarrow> double \<Rightarrow> double" where
  "dmul x y =
     (let neg = (signbit x \<noteq> signbit y) in
      if is_nan x \<or> is_nan y then NaN
      else if is_inf x then (if is_zero y then NaN else inf_of neg)
      else if is_inf y then (if is_zero x then NaN else inf_of neg)
      else fin_of neg (val x * val y))"

definition ddiv :: "double \<Rightarrow> double \<Rightarrow> double" where
  "ddiv x y =
     (let neg = (signbit x \<noteq> signbit y) in
      if is_nan x \<or> is_nan y then NaN
      else if is_inf x then (if is_inf y then NaN else inf_of neg)
      else if is_inf y then zero_of neg
      else if is_zero y then (if is_zero x then NaN else inf_of neg)
      else fin_of neg (val x / val y))"

text \<open>The comparisons \<^verbatim>\<open><=\<close> and \<^verbatim>\<open>==\<close>: false as soon as one side is NaN.\<close>

fun dle :: "double \<Rightarrow> double \<Rightarrow> bool" where
  "dle NaN _ = False"
| "dle _ NaN = False"
| "dle NInf _ = True"
| "dle _ PInf = True"
| "dle PInf _ = False"
| "dle _ NInf = False"
| "dle x y = (val x \<le> val y)"

fun deq :: "double \<Rightarrow> double \<Rightarrow> bool" where
  "deq NaN _ = False"
| "deq _ NaN = False"
| "deq PInf y = (y = PInf)"
| "deq NInf y = (y = NInf)"
| "deq x PInf = False"
| "deq x NInf = False"
| "deq x y = (val x = val y)"

section \<open>Vector3D\<close>

text \<open>
  The class has three constant fields, their getters and the defaulted
  \<^verbatim>\<open>operator==\<close>, which compares the members in order with \<^verbatim>\<open>==\<close> of
  \<^verbatim>\<open>double\<close>.
\<close>

datatype Vector3D = Vector3D (getX: double) (getY: double) (getZ: double)

definition vec_eq :: "Vector3D \<Rightarrow> Vector3D \<Rightarrow> bool" where
  "vec_eq p q = (deq (getX p) (getX q) \<and> deq (getY p) (getY q) \<and> deq (getZ p) (getZ q))"

section \<open>Segment3D\<close>

text \<open>
  Both failures of the program are \<^verbatim>\<open>std::invalid_argument\<close>, told apart by
  their message.
\<close>

datatype error = InvalidArgument string

definition DegenerateSegment :: error where
  "DegenerateSegment = InvalidArgument ''Start and end points are the same''"

definition NoIntersection :: error where
  "NoIntersection = InvalidArgument ''Segments do not intersect''"

datatype Segment3D = Segment3D (getStart: Vector3D) (getEnd: Vector3D)

text \<open>The constructor: it throws when \<^verbatim>\<open>start == end\<close>.\<close>

definition mk_Segment3D :: "Vector3D \<Rightarrow> Vector3D \<Rightarrow> error + Segment3D" where
  "mk_Segment3D start end' =
     (if vec_eq start end' then Inl DegenerateSegment else Inr (Segment3D start end'))"

text \<open>A segment value is valid when the constructor can have built it.\<close>

definition valid_segment :: "Segment3D \<Rightarrow> bool" where
  "valid_segment seg = (mk_Segment3D (getStart seg) (getEnd seg) = Inr seg)"

section \<open>intersect\<close>

text \<open>
  The function, lines 101 to 127: the twelve coefficients, \<open>s\<close> and \<open>t\<close> with the
  operators associated as C++ parses them, the six comparisons, and the point returned or
  the exception thrown.
\<close>

definition intersect :: "Segment3D \<Rightarrow> Segment3D \<Rightarrow> double \<Rightarrow> error + Vector3D" where
  "intersect segment1 segment2 precision =
     (let a1 = dsub (getX (getEnd segment1)) (getX (getStart segment1));
          b1 = getX (getStart segment1);
          c1 = dsub (getY (getEnd segment1)) (getY (getStart segment1));
          d1 = getY (getStart segment1);
          e1 = dsub (getZ (getEnd segment1)) (getZ (getStart segment1));
          f1 = getZ (getStart segment1);
          a2 = dsub (getX (getEnd segment2)) (getX (getStart segment2));
          b2 = getX (getStart segment2);
          c2 = dsub (getY (getEnd segment2)) (getY (getStart segment2));
          d2 = getY (getStart segment2);
          e2 = dsub (getZ (getEnd segment2)) (getZ (getStart segment2));
          f2 = getZ (getStart segment2);
          s = ddiv (dsub (dadd (dsub (dmul d2 a1) (dmul c1 b2)) (dmul c1 b1)) (dmul d1 a1))
                   (dsub (dmul c1 a2) (dmul c2 a1));
          t = ddiv (dsub (dadd (dmul a2 s) b2) b1) a1
      in if dle (dsub (dadd (dmul a1 t) b1) precision) (dadd (dmul a2 s) b2) \<and>
            dle (dadd (dmul a2 s) b2) (dadd (dadd (dmul a1 t) b1) precision) \<and>
            dle (dsub (dadd (dmul c1 t) d1) precision) (dadd (dmul c2 s) d2) \<and>
            dle (dadd (dmul c2 s) d2) (dadd (dadd (dmul c1 t) d1) precision) \<and>
            dle (dsub (dadd (dmul e1 t) f1) precision) (dadd (dmul e2 s) f2) \<and>
            dle (dadd (dmul e2 s) f2) (dadd (dadd (dmul e1 t) f1) precision)
         then Inr (Vector3D (dadd (dmul a2 s) b2) (dadd (dmul c2 s) d2) (dadd (dmul e2 s) f2))
         else Inl NoIntersection)"

text \<open>The default argument of \<open>precision\<close>, \<^verbatim>\<open>1e-6\<close>.\<close>

definition default_precision :: double where
  "default_precision = Fin (1 / 10 ^ 6)"

section \<open>The algorithm as the specification words it\<close>

text \<open>
  Step 1 of the specification: a segment is a parametric line on each axis, with a
  direction (\<open>a\<close>, \<open>c\<close>, \<open>e\<close>) and an offset (\<open>b\<close>, \<open>d\<close>, \<open>f\<close>).
\<close>

definition coef_a :: "Segment3D \<Rightarrow> double" where
  "coef_a seg = dsub (getX (getEnd seg)) (getX (getStart seg))"

definition coef_b :: "Segment3D \<Rightarrow> double" where
  "coef_b seg = getX (getStart seg)"

definition coef_c :: "Segment3D \<Rightarrow> double" where
  "coef_c seg = dsub (getY (getEnd seg)) (getY (getStart seg))"

definition coef_d :: "Segment3D \<Rightarrow> double" where
  "coef_d seg = getY (getStart seg)"

definition coef_e :: "Segment3D \<Rightarrow> double" where
  "coef_e seg = dsub (getZ (getEnd seg)) (getZ (getStart seg))"

definition coef_f :: "Segment3D \<Rightarrow> double" where
  "coef_f seg = getZ (getStart seg)"

text \<open>The value of a segment's line on each axis at a parameter, and the point there.\<close>

definition axis_x :: "Segment3D \<Rightarrow> double \<Rightarrow> double" where
  "axis_x seg u = dadd (dmul (coef_a seg) u) (coef_b seg)"

definition axis_y :: "Segment3D \<Rightarrow> double \<Rightarrow> double" where
  "axis_y seg u = dadd (dmul (coef_c seg) u) (coef_d seg)"

definition axis_z :: "Segment3D \<Rightarrow> double \<Rightarrow> double" where
  "axis_z seg u = dadd (dmul (coef_e seg) u) (coef_f seg)"

definition point_at :: "Segment3D \<Rightarrow> double \<Rightarrow> Vector3D" where
  "point_at seg u = Vector3D (axis_x seg u) (axis_y seg u) (axis_z seg u)"

text \<open>Step 2: the numerator and the denominator of \<open>s\<close>, then \<open>s\<close> and \<open>t\<close>.\<close>

definition numerator :: "Segment3D \<Rightarrow> Segment3D \<Rightarrow> double" where
  "numerator segment1 segment2 =
     dsub (dadd (dsub (dmul (coef_d segment2) (coef_a segment1))
                      (dmul (coef_c segment1) (coef_b segment2)))
                (dmul (coef_c segment1) (coef_b segment1)))
          (dmul (coef_d segment1) (coef_a segment1))"

definition denominator :: "Segment3D \<Rightarrow> Segment3D \<Rightarrow> double" where
  "denominator segment1 segment2 =
     dsub (dmul (coef_c segment1) (coef_a segment2)) (dmul (coef_c segment2) (coef_a segment1))"

definition param_s :: "Segment3D \<Rightarrow> Segment3D \<Rightarrow> double" where
  "param_s segment1 segment2 = ddiv (numerator segment1 segment2) (denominator segment1 segment2)"

definition param_t :: "Segment3D \<Rightarrow> Segment3D \<Rightarrow> double" where
  "param_t segment1 segment2 =
     ddiv (dsub (axis_x segment2 (param_s segment1 segment2)) (coef_b segment1))
          (coef_a segment1)"

text \<open>Step 4: \<open>x - precision \<le> y \<le> x + precision\<close>.\<close>

definition close_to :: "double \<Rightarrow> double \<Rightarrow> double \<Rightarrow> bool" where
  "close_to precision x y = (dle (dsub x precision) y \<and> dle y (dadd x precision))"

section \<open>Finite inputs and geometry\<close>

definition has_nan :: "Vector3D \<Rightarrow> bool" where
  "has_nan p = (is_nan (getX p) \<or> is_nan (getY p) \<or> is_nan (getZ p))"

definition fin_vec :: "Vector3D \<Rightarrow> bool" where
  "fin_vec p = (is_fin (getX p) \<and> is_fin (getY p) \<and> is_fin (getZ p))"

definition inf_vec :: "Vector3D \<Rightarrow> bool" where
  "inf_vec p = (is_inf (getX p) \<and> is_inf (getY p) \<and> is_inf (getZ p))"

definition fin_seg :: "Segment3D \<Rightarrow> bool" where
  "fin_seg seg = (fin_vec (getStart seg) \<and> fin_vec (getEnd seg))"

text \<open>
  Two values denote the same number: neither is NaN, and they are the same value or the
  two zeros.
\<close>

definition same_number :: "double \<Rightarrow> double \<Rightarrow> bool" where
  "same_number x y = ((x = y \<or> (is_zero x \<and> is_zero y)) \<and> is_nan x = False \<and> is_nan y = False)"

text \<open>
  The geometry of a segment with finite coordinates: the point of its supporting line at
  a real parameter, the points of the line, and the points of the segment (parameter in
  \<open>[0, 1]\<close>).
\<close>

definition line_point :: "Segment3D \<Rightarrow> real \<Rightarrow> real \<times> real \<times> real" where
  "line_point seg u =
     (val (getX (getStart seg)) + u * (val (getX (getEnd seg)) - val (getX (getStart seg))),
      val (getY (getStart seg)) + u * (val (getY (getEnd seg)) - val (getY (getStart seg))),
      val (getZ (getStart seg)) + u * (val (getZ (getEnd seg)) - val (getZ (getStart seg))))"

definition on_line :: "Segment3D \<Rightarrow> real \<times> real \<times> real \<Rightarrow> bool" where
  "on_line seg q = (\<exists>u. q = line_point seg u)"

definition on_segment :: "Segment3D \<Rightarrow> real \<times> real \<times> real \<Rightarrow> bool" where
  "on_segment seg q = (\<exists>u. 0 \<le> u \<and> u \<le> 1 \<and> q = line_point seg u)"

definition lines_meet :: "Segment3D \<Rightarrow> Segment3D \<Rightarrow> bool" where
  "lines_meet segment1 segment2 = (\<exists>q. on_line segment1 q \<and> on_line segment2 q)"

definition segments_meet :: "Segment3D \<Rightarrow> Segment3D \<Rightarrow> bool" where
  "segments_meet segment1 segment2 = (\<exists>q. on_segment segment1 q \<and> on_segment segment2 q)"

section \<open>Inputs of the examples\<close>

text \<open>
  The four points of \<^verbatim>\<open>main\<close> and what \<^verbatim>\<open>main\<close> computes before it
  prints: either constructor or \<open>intersect\<close> may throw, and the exception leaves
  \<^verbatim>\<open>main\<close>.
\<close>

definition main_x1 :: Vector3D where "main_x1 = Vector3D (Fin 3) (Fin 0) (Fin (1 / 10 ^ 7))"
definition main_x2 :: Vector3D where "main_x2 = Vector3D (Fin 1) (Fin 0) (Fin 0)"
definition main_x3 :: Vector3D where "main_x3 = Vector3D (Fin 0) (Fin 1) (Fin 0)"
definition main_x4 :: Vector3D where "main_x4 = Vector3D (Fin 0) (Fin 4) (Fin 0)"

definition main_result :: "error + Vector3D" where
  "main_result =
     (case mk_Segment3D main_x1 main_x2 of
        Inl e \<Rightarrow> Inl e
      | Inr s1 \<Rightarrow>
          (case mk_Segment3D main_x3 main_x4 of
             Inl e \<Rightarrow> Inl e
           | Inr s2 \<Rightarrow> intersect s1 s2 default_precision))"

text \<open>
  Two segments of the plane \<open>z = 0\<close>, one on the X axis from 3 to 1, one on the Y
  axis from 1 to 4: they share no point, their lines cross at the origin.
\<close>

definition apart1 :: Segment3D where
  "apart1 = Segment3D (Vector3D (Fin 3) (Fin 0) (Fin 0)) (Vector3D (Fin 1) (Fin 0) (Fin 0))"
definition apart2 :: Segment3D where
  "apart2 = Segment3D (Vector3D (Fin 0) (Fin 1) (Fin 0)) (Vector3D (Fin 0) (Fin 4) (Fin 0))"

text \<open>Two parallel segments of direction \<open>(1, 1, 1)\<close>, one unit apart in Y.\<close>

definition par1 :: Segment3D where
  "par1 = Segment3D (Vector3D (Fin 0) (Fin 0) (Fin 0)) (Vector3D (Fin 1) (Fin 1) (Fin 1))"
definition par2 :: Segment3D where
  "par2 = Segment3D (Vector3D (Fin 0) (Fin 1) (Fin 0)) (Vector3D (Fin 1) (Fin 2) (Fin 1))"


text \<open>The two diagonals of the square with corners \<open>(0, 0, 0)\<close> and \<open>(2, 2, 0)\<close>.\<close>

definition cross1 :: Segment3D where
  "cross1 = Segment3D (Vector3D (Fin 0) (Fin 0) (Fin 0)) (Vector3D (Fin 2) (Fin 2) (Fin 0))"

definition cross2 :: Segment3D where
  "cross2 = Segment3D (Vector3D (Fin 0) (Fin 2) (Fin 0)) (Vector3D (Fin 2) (Fin 0) (Fin 0))"

section \<open>Arithmetic of the model\<close>

lemmas dbl_defs = dsub_def dmul_def ddiv_def fin_of_def zero_of_def inf_of_def

lemmas coef_defs = coef_a_def coef_b_def coef_c_def coef_d_def coef_e_def coef_f_def

lemmas spec_defs = close_to_def point_at_def axis_x_def axis_y_def axis_z_def
  param_s_def param_t_def numerator_def denominator_def

lemma dadd_fin: "is_fin x \<Longrightarrow> is_fin y \<Longrightarrow> is_fin (dadd x y) \<and> val (dadd x y) = val x + val y"
  by (cases x; cases y) simp_all

lemma dneg_fin: "is_fin x \<Longrightarrow> is_fin (dneg x) \<and> val (dneg x) = - val x"
  by (cases x) simp_all

lemma dsub_fin: "is_fin x \<Longrightarrow> is_fin y \<Longrightarrow> is_fin (dsub x y) \<and> val (dsub x y) = val x - val y"
  by (simp add: dsub_def dadd_fin dneg_fin)

lemma dmul_fin: "is_fin x \<Longrightarrow> is_fin y \<Longrightarrow> is_fin (dmul x y) \<and> val (dmul x y) = val x * val y"
  by (cases x; cases y) (simp_all add: dbl_defs)

lemma ddiv_fin: "is_fin x \<Longrightarrow> is_fin y \<Longrightarrow> val y \<noteq> 0 \<Longrightarrow> is_fin (ddiv x y) \<and> val (ddiv x y) = val x / val y"
  by (cases x; cases y) (simp_all add: dbl_defs)

lemma dle_fin: "is_fin x \<Longrightarrow> is_fin y \<Longrightarrow> dle x y = (val x \<le> val y)"
  by (cases x; cases y) simp_all

lemma deq_same: "deq x y = same_number x y"
  by (cases x; cases y) (auto simp: same_number_def)

lemma deq_sym: "deq x y = deq y x"
  by (cases x; cases y) auto

lemma deq_refl: "deq x x = (\<not> is_nan x)"
  by (cases x) auto

lemma intersect_steps:
  "intersect segment1 segment2 precision =
     (if close_to precision (axis_x segment1 (param_t segment1 segment2)) (axis_x segment2 (param_s segment1 segment2)) \<and>
         close_to precision (axis_y segment1 (param_t segment1 segment2)) (axis_y segment2 (param_s segment1 segment2)) \<and>
         close_to precision (axis_z segment1 (param_t segment1 segment2)) (axis_z segment2 (param_s segment1 segment2))
      then Inr (point_at segment2 (param_s segment1 segment2))
      else Inl NoIntersection)"
  unfolding intersect_def Let_def spec_defs coef_defs by simp

lemma close_to_nonneg:
  "is_fin x \<Longrightarrow> is_fin y \<Longrightarrow> val x = val y \<Longrightarrow> dle (Fin 0) precision \<Longrightarrow> close_to precision x y"
  by (cases x; cases y; cases precision) (simp_all add: close_to_def dsub_def)

lemma close_to_negative:
  "dle precision (Fin 0) \<Longrightarrow> \<not> is_zero precision \<Longrightarrow> close_to precision x y \<Longrightarrow> is_inf x \<and> is_inf y"
  by (cases x; cases y; cases precision) (simp_all add: close_to_def dsub_def split: if_splits)

lemma close_to_not_nan: "close_to precision x y \<Longrightarrow> \<not> is_nan x \<and> \<not> is_nan y"
  by (cases x; cases y; cases precision) (simp_all add: close_to_def dsub_def split: if_splits)

lemma ddiv_by_zero: "is_zero y \<Longrightarrow> is_nan (ddiv x y) \<or> is_inf (ddiv x y)"
  by (cases x; cases y) (simp_all add: dbl_defs)

lemma dmul_special: "is_nan y \<or> is_inf y \<Longrightarrow> is_nan (dmul x y) \<or> is_inf (dmul x y)"
  by (cases x; cases y) (simp_all add: dbl_defs)

lemma dmul_zero_special: "is_zero x \<Longrightarrow> is_nan y \<or> is_inf y \<Longrightarrow> is_nan (dmul x y)"
  by (cases x; cases y) (simp_all add: dbl_defs)

lemma dadd_special: "is_nan x \<or> is_inf x \<Longrightarrow> is_nan (dadd x y) \<or> is_inf (dadd x y)"
  by (cases x; cases y) simp_all

lemma dadd_nan: "is_nan x \<Longrightarrow> is_nan (dadd x y)"
  by (cases x; cases y) simp_all

section \<open>Finite segments: the model computes in the reals\<close>

lemma coef_fin:
  "fin_seg seg \<Longrightarrow>
     is_fin (coef_a seg) \<and> is_fin (coef_b seg) \<and> is_fin (coef_c seg) \<and>
     is_fin (coef_d seg) \<and> is_fin (coef_e seg) \<and> is_fin (coef_f seg)"
  by (simp add: fin_seg_def fin_vec_def coef_defs dsub_fin)

lemma numerator_fin:
  assumes "fin_seg segment1" "fin_seg segment2"
  shows "is_fin (numerator segment1 segment2) \<and>
         val (numerator segment1 segment2) =
           val (coef_d segment2) * val (coef_a segment1) - val (coef_c segment1) * val (coef_b segment2)
           + val (coef_c segment1) * val (coef_b segment1) - val (coef_d segment1) * val (coef_a segment1)"
  using coef_fin [OF assms(1)] coef_fin [OF assms(2)]
  by (simp add: numerator_def dsub_fin dadd_fin dmul_fin)

lemma denominator_fin:
  assumes "fin_seg segment1" "fin_seg segment2"
  shows "is_fin (denominator segment1 segment2) \<and>
         val (denominator segment1 segment2) =
           val (coef_c segment1) * val (coef_a segment2) - val (coef_c segment2) * val (coef_a segment1)"
  using coef_fin [OF assms(1)] coef_fin [OF assms(2)]
  by (simp add: denominator_def dsub_fin dmul_fin)

lemma axis_fin:
  assumes "fin_seg seg" "is_fin u"
  shows "is_fin (axis_x seg u) \<and> val (axis_x seg u) = val (coef_a seg) * val u + val (coef_b seg)"
    and "is_fin (axis_y seg u) \<and> val (axis_y seg u) = val (coef_c seg) * val u + val (coef_d seg)"
    and "is_fin (axis_z seg u) \<and> val (axis_z seg u) = val (coef_e seg) * val u + val (coef_f seg)"
  using coef_fin [OF assms(1)] assms(2)
  by (simp_all add: axis_x_def axis_y_def axis_z_def dadd_fin dmul_fin)

lemma param_s_fin:
  assumes "fin_seg segment1" "fin_seg segment2" "val (denominator segment1 segment2) \<noteq> 0"
  shows "is_fin (param_s segment1 segment2) \<and>
         val (param_s segment1 segment2) =
           val (numerator segment1 segment2) / val (denominator segment1 segment2)"
  using numerator_fin [OF assms(1,2)] denominator_fin [OF assms(1,2)] assms(3)
  by (simp add: param_s_def ddiv_fin)



section \<open>Evaluation on literals\<close>

lemma dmul_Fin: "dmul (Fin a) (Fin b) = fin_of ((a < 0) \<noteq> (b < 0)) (a * b)"
  by (simp add: dmul_def)

lemma dmul_Fin_NegZero: "dmul (Fin a) NegZero = zero_of (\<not> a < 0)"
  by (simp add: dmul_def fin_of_def)

lemma dmul_NegZero_Fin: "dmul NegZero (Fin b) = zero_of (\<not> b < 0)"
  by (simp add: dmul_def fin_of_def)

lemma ddiv_Fin:
  "ddiv (Fin a) (Fin b) =
     (if b = 0 then (if a = 0 then NaN else inf_of (a < 0))
      else fin_of ((a < 0) \<noteq> (b < 0)) (a / b))"
  by (simp add: ddiv_def)

lemma dmul_Fin_inf:
  "dmul (Fin a) PInf = (if a = 0 then NaN else inf_of (a < 0))"
  "dmul (Fin a) NInf = (if a = 0 then NaN else inf_of (\<not> a < 0))"
  by (simp_all add: dmul_def)

lemma dmul_NaN: "dmul x NaN = NaN" "dmul NaN x = NaN"
  by (simp_all add: dmul_def)

lemma ddiv_inf_Fin:
  "ddiv PInf (Fin b) = inf_of (b < 0)"
  "ddiv NInf (Fin b) = inf_of (\<not> b < 0)"
  by (simp_all add: ddiv_def)

lemma ddiv_NaN: "ddiv x NaN = NaN" "ddiv NaN x = NaN"
  by (simp_all add: ddiv_def)

lemmas eval_simps = Let_def dsub_def dmul_Fin dmul_Fin_NegZero dmul_NegZero_Fin ddiv_Fin
  dmul_Fin_inf dmul_NaN ddiv_inf_Fin ddiv_NaN fin_of_def zero_of_def inf_of_def

lemmas main_defs = main_x1_def main_x2_def main_x3_def main_x4_def

lemmas valid_defs = valid_segment_def mk_Segment3D_def vec_eq_def fin_seg_def fin_vec_def

lemma cross_params:
  "param_s cross1 cross2 = Fin (1 / 2)" "param_t cross1 cross2 = Fin (1 / 2)"
  by (simp_all add: cross1_def cross2_def param_t_def param_s_def numerator_def denominator_def
      axis_x_def coef_defs eval_simps)

lemma cross_axes:
  "axis_x cross1 (Fin (1 / 2)) = Fin 1" "axis_x cross2 (Fin (1 / 2)) = Fin 1"
  "axis_y cross1 (Fin (1 / 2)) = Fin 1" "axis_y cross2 (Fin (1 / 2)) = Fin 1"
  "axis_z cross1 (Fin (1 / 2)) = Fin 0" "axis_z cross2 (Fin (1 / 2)) = Fin 0"
  by (simp_all add: cross1_def cross2_def axis_x_def axis_y_def axis_z_def coef_defs eval_simps)

section \<open>Division by zero and negative precision\<close>

lemma zero_denominator_outcome:
  assumes "is_zero (denominator segment1 segment2)"
  shows "intersect segment1 segment2 precision = Inl NoIntersection \<or>
         (\<exists>v. intersect segment1 segment2 precision = Inr v \<and> inf_vec v)"
proof -
  let ?s = "param_s segment1 segment2" and ?t = "param_t segment1 segment2"
  have s: "is_nan ?s \<or> is_inf ?s"
    unfolding param_s_def using assms by (rule ddiv_by_zero)
  have ax: "is_nan (axis_x segment2 ?s) \<or> is_inf (axis_x segment2 ?s)"
    and ay: "is_nan (axis_y segment2 ?s) \<or> is_inf (axis_y segment2 ?s)"
    and az: "is_nan (axis_z segment2 ?s) \<or> is_inf (axis_z segment2 ?s)"
    unfolding axis_x_def axis_y_def axis_z_def
    by (rule dadd_special, rule dmul_special, rule s)+
  show ?thesis
  proof (cases "close_to precision (axis_x segment1 ?t) (axis_x segment2 ?s) \<and>
         close_to precision (axis_y segment1 ?t) (axis_y segment2 ?s) \<and>
         close_to precision (axis_z segment1 ?t) (axis_z segment2 ?s)")
    case True
    then have "\<not> is_nan (axis_x segment2 ?s)" "\<not> is_nan (axis_y segment2 ?s)"
        "\<not> is_nan (axis_z segment2 ?s)"
      using close_to_not_nan by blast+
    with ax ay az have "inf_vec (point_at segment2 ?s)"
      by (simp add: inf_vec_def point_at_def)
    moreover have "intersect segment1 segment2 precision = Inr (point_at segment2 ?s)"
      using True by (simp add: intersect_steps)
    ultimately show ?thesis
      by simp
  next
    case False
    then have "intersect segment1 segment2 precision = Inl NoIntersection"
      unfolding intersect_steps by (rule if_not_P)
    then show ?thesis
      by simp
  qed
qed

lemma negative_precision_outcome:
  assumes "dle precision (Fin 0)" and "\<not> is_zero precision"
  shows "intersect segment1 segment2 precision = Inl NoIntersection \<or>
         (\<exists>v. intersect segment1 segment2 precision = Inr v \<and> inf_vec v)"
proof (cases "intersect segment1 segment2 precision")
  case (Inl e)
  then show ?thesis
    by (simp add: intersect_steps split: if_splits)
next
  case (Inr v)
  then have c: "close_to precision (axis_x segment1 (param_t segment1 segment2))
                            (axis_x segment2 (param_s segment1 segment2))"
      "close_to precision (axis_y segment1 (param_t segment1 segment2))
                            (axis_y segment2 (param_s segment1 segment2))"
      "close_to precision (axis_z segment1 (param_t segment1 segment2))
                            (axis_z segment2 (param_s segment1 segment2))"
    and v: "v = point_at segment2 (param_s segment1 segment2)"
    by (simp_all add: intersect_steps split: if_splits)
  have "inf_vec v"
    using close_to_negative [OF assms c(1)] close_to_negative [OF assms c(2)]
      close_to_negative [OF assms c(3)]
    by (simp add: v inf_vec_def point_at_def)
  with Inr show ?thesis by simp
qed

lemma negative_precision_finite:
  assumes "fin_seg segment1" and "fin_seg segment2"
    and "val (coef_a segment1) \<noteq> 0"
    and "val (denominator segment1 segment2) \<noteq> 0"
    and "dle precision (Fin 0)" and "\<not> is_zero precision"
  shows "intersect segment1 segment2 precision = Inl NoIntersection"
proof -
  have "is_fin (param_s segment1 segment2)"
    using param_s_fin [OF assms(1,2,4)] by simp
  then have "is_fin (axis_x segment2 (param_s segment1 segment2))"
    using axis_fin(1) [OF assms(2)] by simp
  then have "\<not> is_inf (axis_x segment2 (param_s segment1 segment2))"
    by (cases "axis_x segment2 (param_s segment1 segment2)") simp_all
  then have "\<not> close_to precision (axis_x segment1 (param_t segment1 segment2))
                            (axis_x segment2 (param_s segment1 segment2))"
    using close_to_negative [OF assms(5,6)] by blast
  then show ?thesis
    by (simp add: intersect_steps)
qed


lemma zero_divisor_outcome:
  assumes "is_zero (coef_a segment1)"
  shows "(is_nan (param_t segment1 segment2) \<or> is_inf (param_t segment1 segment2)) \<and>
         intersect segment1 segment2 precision = Inl NoIntersection"
proof -
  let ?s = "param_s segment1 segment2" and ?t = "param_t segment1 segment2"
  have t: "is_nan ?t \<or> is_inf ?t"
    unfolding param_t_def using assms by (rule ddiv_by_zero)
  have "is_nan (dmul (coef_a segment1) ?t)"
    using assms t by (rule dmul_zero_special)
  then have "is_nan (axis_x segment1 ?t)"
    unfolding axis_x_def by (rule dadd_nan)
  then have "\<not> close_to precision (axis_x segment1 ?t) (axis_x segment2 ?s)"
    using close_to_not_nan by blast
  then have "intersect segment1 segment2 precision = Inl NoIntersection"
    by (simp add: intersect_steps)
  with t show ?thesis
    by simp
qed

section \<open>The geometry of the examples\<close>

lemma line_point_simps:
  "line_point (Segment3D (Vector3D (Fin x0) (Fin y0) (Fin z0)) (Vector3D (Fin x1) (Fin y1) (Fin z1))) u =
     (x0 + u * (x1 - x0), y0 + u * (y1 - y0), z0 + u * (z1 - z0))"
  by (simp add: line_point_def)

lemma apart_eval:
  "param_s apart1 apart2 = Fin (- (1 / 3))" "param_t apart1 apart2 = Fin (3 / 2)"
  "intersect apart1 apart2 default_precision = Inr (Vector3D (Fin 0) (Fin 0) (Fin 0))"
  by (simp_all add: apart1_def apart2_def param_t_def param_s_def numerator_def denominator_def
      axis_x_def coef_defs default_precision_def intersect_def eval_simps)

lemma apart_no_common_point: "\<not> segments_meet apart1 apart2"
proof
  assume "segments_meet apart1 apart2"
  then obtain q u v where u: "0 \<le> u" "u \<le> 1" "q = line_point apart1 u"
    and v: "q = line_point apart2 v"
    unfolding segments_meet_def on_segment_def by blast
  from u(3) v have "3 + u * (1 - 3) = (0::real) + v * (0 - 0)"
    by (simp add: apart1_def apart2_def line_point_simps)
  with u(2) show False
    by simp
qed

lemma apart_lines_cross: "lines_meet apart1 apart2"
proof -
  have "line_point apart1 (3 / 2) = (0, 0, 0)" "line_point apart2 (- (1 / 3)) = (0, 0, 0)"
    by (simp_all add: apart1_def apart2_def line_point_simps)
  then have "on_line apart1 (0, 0, 0)" "on_line apart2 (0, 0, 0)"
    unfolding on_line_def by metis+
  then show ?thesis
    unfolding lines_meet_def by blast
qed


section \<open>The claims\<close>



text \<open>
  C2, as stated, fails: on the segments of \<^verbatim>\<open>main\<close> and precision \<open>1e-6\<close>
  the function does not throw.
\<close>

theorem demo_no_intersection_counterexample:
  "intersect (Segment3D (Vector3D (Fin 3) (Fin 0) (Fin (1 / 10 ^ 7))) (Vector3D (Fin 1) (Fin 0) (Fin 0)))
             (Segment3D (Vector3D (Fin 0) (Fin 1) (Fin 0)) (Vector3D (Fin 0) (Fin 4) (Fin 0)))
             (Fin (1 / 10 ^ 6)) \<noteq> Inl NoIntersection"
  by (simp add: intersect_def eval_simps)

text \<open>
  C2, amended. Both constructors succeed, \<open>s = -1/3\<close> and \<open>t = 3/2\<close>, the Z values
  differ by \<open>5e-8\<close>, which is below the precision, and \<open>intersect\<close> returns the
  point \<open>(0, 0, 0)\<close>; this is the value \<^verbatim>\<open>main\<close> prints.
\<close>

theorem demo_returns_origin:
  "mk_Segment3D main_x1 main_x2 = Inr (Segment3D main_x1 main_x2) \<and>
   mk_Segment3D main_x3 main_x4 = Inr (Segment3D main_x3 main_x4) \<and>
   intersect (Segment3D main_x1 main_x2) (Segment3D main_x3 main_x4) default_precision =
     Inr (Vector3D (Fin 0) (Fin 0) (Fin 0)) \<and>
   main_result = Inr (Vector3D (Fin 0) (Fin 0) (Fin 0))"
proof -
  have c: "mk_Segment3D main_x1 main_x2 = Inr (Segment3D main_x1 main_x2)"
      "mk_Segment3D main_x3 main_x4 = Inr (Segment3D main_x3 main_x4)"
    by (simp_all add: mk_Segment3D_def vec_eq_def main_defs)
  have i: "intersect (Segment3D main_x1 main_x2) (Segment3D main_x3 main_x4) default_precision =
      Inr (Vector3D (Fin 0) (Fin 0) (Fin 0))"
    by (simp add: main_defs default_precision_def intersect_def eval_simps)
  show ?thesis
    by (simp add: main_result_def c i)
qed

text \<open>
  C3. For all segments and every precision, \<open>intersect\<close> returns segment2 evaluated
  at \<open>s\<close>, the point \<open>(a2 * s + b2, c2 * s + d2, e2 * s + f2)\<close>, when the three
  per-axis comparisons hold, and otherwise throws \<^verbatim>\<open>std::invalid_argument\<close> with
  the message of line 126; there is no third outcome.
\<close>

theorem intersect_outcomes:
  "intersect segment1 segment2 precision =
     (if close_to precision (axis_x segment1 (param_t segment1 segment2))
                            (axis_x segment2 (param_s segment1 segment2)) \<and>
         close_to precision (axis_y segment1 (param_t segment1 segment2))
                            (axis_y segment2 (param_s segment1 segment2)) \<and>
         close_to precision (axis_z segment1 (param_t segment1 segment2))
                            (axis_z segment2 (param_s segment1 segment2))
      then Inr (Vector3D (dadd (dmul (coef_a segment2) (param_s segment1 segment2)) (coef_b segment2))
                         (dadd (dmul (coef_c segment2) (param_s segment1 segment2)) (coef_d segment2))
                         (dadd (dmul (coef_e segment2) (param_s segment1 segment2)) (coef_f segment2)))
      else Inl (InvalidArgument ''Segments do not intersect''))"
  unfolding intersect_def Let_def spec_defs coef_defs NoIntersection_def by simp

text \<open>
  C4, as stated, fails: a point with a NaN coordinate is not equal to itself, so the
  constructor accepts it as both ends.
\<close>

theorem same_point_nan_counterexample:
  "mk_Segment3D (Vector3D NaN (Fin 0) (Fin 0)) (Vector3D NaN (Fin 0) (Fin 0)) \<noteq> Inl DegenerateSegment"
  by (simp add: mk_Segment3D_def vec_eq_def)

text \<open>
  C4, amended. \<open>Segment3D(p, p)\<close> throws exactly when no coordinate of \<open>p\<close> is NaN;
  with a NaN coordinate it returns the segment.
\<close>

theorem same_point_degenerate:
  "mk_Segment3D p p = (if has_nan p then Inr (Segment3D p p) else Inl DegenerateSegment)"
  by (auto simp: mk_Segment3D_def vec_eq_def has_nan_def deq_refl)

text \<open>
  C5, as stated, fails: equality is not reflexive on a point with a NaN coordinate.
\<close>

theorem equality_not_reflexive_counterexample:
  "\<not> vec_eq (Vector3D (Fin 1) NaN (Fin 3)) (Vector3D (Fin 1) NaN (Fin 3))"
  by (simp add: vec_eq_def)

text \<open>
  C5, amended. Equality is symmetric; \<open>p == p\<close> holds exactly when no coordinate of
  \<open>p\<close> is NaN; two points are equal exactly when on each axis the coordinates denote
  the same number, with no tolerance (NaN equals nothing, the two zeros are equal); the
  two examples of the specification evaluate as it says.
\<close>

theorem equality_exact:
  "vec_eq p q = vec_eq q p \<and>
   vec_eq p p = (has_nan p = False) \<and>
   vec_eq p q = (same_number (getX p) (getX q) \<and> same_number (getY p) (getY q) \<and>
                 same_number (getZ p) (getZ q)) \<and>
   vec_eq (Vector3D (Fin 1) (Fin 2) (Fin 3)) (Vector3D (Fin 1) (Fin 2) (Fin 3)) \<and>
   vec_eq (Vector3D (Fin 1) (Fin 2) (Fin 3)) (Vector3D (Fin 1) (Fin 2) (Fin (30000001 / 10000000))) = False"
proof -
  have "vec_eq p q = vec_eq q p"
    by (simp add: vec_eq_def deq_sym [of "getX p"] deq_sym [of "getY p"] deq_sym [of "getZ p"])
  moreover have "vec_eq p p = (has_nan p = False)"
    by (auto simp: vec_eq_def has_nan_def deq_refl)
  moreover have "vec_eq p q = (same_number (getX p) (getX q) \<and> same_number (getY p) (getY q) \<and>
                 same_number (getZ p) (getZ q))"
    by (simp add: vec_eq_def deq_same)
  moreover have "vec_eq (Vector3D (Fin 1) (Fin 2) (Fin 3)) (Vector3D (Fin 1) (Fin 2) (Fin 3))"
    by (simp add: vec_eq_def)
  moreover have "vec_eq (Vector3D (Fin 1) (Fin 2) (Fin 3))
      (Vector3D (Fin 1) (Fin 2) (Fin (30000001 / 10000000))) = False"
    by (simp add: vec_eq_def)
  ultimately show ?thesis by blast
qed

text \<open>
  C6. The claim fails on the code at two parallel segments: the denominator is 0, \<open>s\<close>
  is \<open>+inf\<close>, every comparison reads \<open>inf \<le> inf\<close>, and \<open>intersect\<close> returns
  the point \<open>(inf, inf, inf)\<close> where the documentation of the function promises an
  exception.
\<close>

theorem parallel_segments_return_infinite_point:
  "mk_Segment3D (Vector3D (Fin 0) (Fin 0) (Fin 0)) (Vector3D (Fin 1) (Fin 1) (Fin 1)) = Inr par1 \<and>
   mk_Segment3D (Vector3D (Fin 0) (Fin 1) (Fin 0)) (Vector3D (Fin 1) (Fin 2) (Fin 1)) = Inr par2 \<and>
   denominator par1 par2 = Fin 0 \<and>
   param_s par1 par2 = PInf \<and>
   intersect par1 par2 default_precision = Inr (Vector3D PInf PInf PInf)"
  by (simp add: par1_def par2_def mk_Segment3D_def vec_eq_def denominator_def param_s_def
      numerator_def coef_defs default_precision_def intersect_def eval_simps)

text \<open>
  C7. Nothing compares \<open>s\<close> or \<open>t\<close> with 0 or 1. The segment on the X axis
  from 3 to 1 and the segment on the Y axis from 1 to 4 are valid and share no point,
  their lines cross at the origin with \<open>t = 3/2\<close> and \<open>s = -1/3\<close>, and
  \<open>intersect\<close> returns a point for them.
\<close>

theorem parameters_not_clamped:
  "\<exists>segment1 segment2.
     valid_segment segment1 \<and> valid_segment segment2 \<and>
     fin_seg segment1 \<and> fin_seg segment2 \<and>
     segments_meet segment1 segment2 = False \<and>
     lines_meet segment1 segment2 \<and>
     1 < val (param_t segment1 segment2) \<and>
     val (param_s segment1 segment2) < 0 \<and>
     (\<exists>v. intersect segment1 segment2 default_precision = Inr v)"
proof (intro exI conjI)
  show "valid_segment apart1" "valid_segment apart2" "fin_seg apart1" "fin_seg apart2"
    by (simp_all add: apart1_def apart2_def valid_defs)
  show "segments_meet apart1 apart2 = False"
    using apart_no_common_point by simp
  show "lines_meet apart1 apart2"
    by (rule apart_lines_cross)
  show "1 < val (param_t apart1 apart2)" "val (param_s apart1 apart2) < 0"
    by (simp_all add: apart_eval)
  show "intersect apart1 apart2 default_precision = Inr (Vector3D (Fin 0) (Fin 0) (Fin 0))"
    by (rule apart_eval)
qed

text \<open>
  C8. For the segments from \<open>(0, 0, 0)\<close> to \<open>(2, 2, 0)\<close> and from
  \<open>(0, 2, 0)\<close> to \<open>(2, 0, 0)\<close>, both valid, the solved parameters are
  \<open>t = 1/2\<close> and \<open>s = 1/2\<close> and, whatever the precision from 0 upwards,
  \<open>intersect\<close> returns exactly \<open>(1, 1, 0)\<close>.
\<close>

theorem diagonals_meet_at_centre:
  assumes "dle (Fin 0) precision"
  shows "mk_Segment3D (Vector3D (Fin 0) (Fin 0) (Fin 0)) (Vector3D (Fin 2) (Fin 2) (Fin 0)) = Inr cross1 \<and>
         mk_Segment3D (Vector3D (Fin 0) (Fin 2) (Fin 0)) (Vector3D (Fin 2) (Fin 0) (Fin 0)) = Inr cross2 \<and>
         param_t cross1 cross2 = Fin (1 / 2) \<and> param_s cross1 cross2 = Fin (1 / 2) \<and>
         intersect cross1 cross2 precision = Inr (Vector3D (Fin 1) (Fin 1) (Fin 0))"
proof -
  have v: "mk_Segment3D (Vector3D (Fin 0) (Fin 0) (Fin 0)) (Vector3D (Fin 2) (Fin 2) (Fin 0)) = Inr cross1"
      "mk_Segment3D (Vector3D (Fin 0) (Fin 2) (Fin 0)) (Vector3D (Fin 2) (Fin 0) (Fin 0)) = Inr cross2"
    by (simp_all add: cross1_def cross2_def mk_Segment3D_def vec_eq_def)
  have c: "close_to precision (Fin 1) (Fin 1)" "close_to precision (Fin 0) (Fin 0)"
    using assms by (simp_all add: close_to_nonneg)
  show ?thesis
    by (simp add: v intersect_steps cross_params cross_axes c point_at_def)
qed

text \<open>
  C8 at the default precision.
\<close>

theorem diagonals_meet_at_centre_witness:
  "dle (Fin 0) default_precision \<and>
   intersect cross1 cross2 default_precision = Inr (Vector3D (Fin 1) (Fin 1) (Fin 0))"
proof -
  have h: "dle (Fin 0) default_precision"
    by (simp add: default_precision_def)
  show ?thesis
    using diagonals_meet_at_centre [OF h] h by simp
qed



text \<open>
  C10. The same pair with the precision \<open>-1\<close>: the comparisons between infinities
  still hold, and \<open>intersect\<close> returns \<open>(inf, inf, inf)\<close> instead of throwing.
\<close>

theorem negative_precision_parallel_segments:
  "valid_segment par1 \<and> valid_segment par2 \<and>
   intersect par1 par2 (Fin (- 1)) = Inr (Vector3D PInf PInf PInf)"
  by (simp add: par1_def par2_def valid_defs intersect_def eval_simps)


end
